theory Spec2Isabelle
  imports Main "HOL-Library.Sublist"
begin

section \<open>Text\<close>

text \<open>
  A Python \<^verbatim>\<open>str\<close> is a sequence of Unicode code points, so text is a list of
  code points. \<open>u\<close> reads an ASCII literal; the two banner keywords outside ASCII are
  written as code points.
\<close>

type_synonym ustr = "nat list"

definition u :: "string \<Rightarrow> ustr" where
  "u s = map of_char s"

text \<open>
  \<^verbatim>\<open>str.isspace\<close> of one code point: the white space that \<^verbatim>\<open>str.strip()\<close>
  removes when called without an argument.
\<close>

definition isspace :: "nat \<Rightarrow> bool" where
  "isspace c \<longleftrightarrow>
     (0x09 \<le> c \<and> c \<le> 0x0D) \<or> (0x1C \<le> c \<and> c \<le> 0x20) \<or> c = 0x85 \<or> c = 0xA0 \<or>
     c = 0x1680 \<or> (0x2000 \<le> c \<and> c \<le> 0x200A) \<or> c = 0x2028 \<or> c = 0x2029 \<or>
     c = 0x202F \<or> c = 0x205F \<or> c = 0x3000"

definition lstrip :: "ustr \<Rightarrow> ustr" where
  "lstrip s = dropWhile isspace s"

definition rstrip :: "ustr \<Rightarrow> ustr" where
  "rstrip s = rev (dropWhile isspace (rev s))"

definition strip :: "ustr \<Rightarrow> ustr" where
  "strip s = rstrip (lstrip s)"

text \<open>\<^verbatim>\<open>sub in s\<close> on strings: \<open>sub\<close> occurs in \<open>s\<close> as a contiguous block.\<close>

fun contains :: "ustr \<Rightarrow> ustr \<Rightarrow> bool" where
  "contains sub [] = (sub = [])"
| "contains sub (c # cs) = (prefix sub (c # cs) \<or> contains sub cs)"

text \<open>
  \<^verbatim>\<open>s.split(sep)\<close>: the text is cut at the occurrences of \<open>sep\<close>, found from the left
  and not overlapping. Python raises \<^verbatim>\<open>ValueError\<close> on an empty separator; every
  separator of the program is a non-empty literal.
\<close>

fun split :: "ustr \<Rightarrow> ustr \<Rightarrow> ustr list" where
  "split sep [] = [[]]"
| "split sep (c # cs) =
     (if prefix sep (c # cs) then [] # split sep (drop (length sep - 1) cs)
      else (let r = split sep cs in (c # hd r) # tl r))"

text \<open>\<^verbatim>\<open>s.replace(old, new)\<close> for a non-empty \<open>old\<close>.\<close>

fun replace :: "ustr \<Rightarrow> ustr \<Rightarrow> ustr \<Rightarrow> ustr" where
  "replace old new [] = []"
| "replace old new (c # cs) =
     (if prefix old (c # cs) then new @ replace old new (drop (length old - 1) cs)
      else c # replace old new cs)"

text \<open>\<^verbatim>\<open>sep.join(parts)\<close>.\<close>

fun join :: "ustr \<Rightarrow> ustr list \<Rightarrow> ustr" where
  "join sep [] = []"
| "join sep [x] = x"
| "join sep (x # y # ys) = x @ sep @ join sep (y # ys)"

text \<open>
  \<^verbatim>\<open>str.lower()\<close> follows the Unicode case tables, which are not part of the
  program: the functions that call it take it from the \<open>world\<close> record below.
  \<open>ascii_lower\<close> is its behaviour on ASCII text, used to run the model.
\<close>

definition ascii_lower :: "ustr \<Rightarrow> ustr" where
  "ascii_lower s = map (\<lambda>c. if 0x41 \<le> c \<and> c \<le> 0x5A then c + 0x20 else c) s"

text \<open>\<^verbatim>\<open>re.sub(r'[*_`#]', '', text)\<close>\<close>

definition sub_markdown :: "ustr \<Rightarrow> ustr" where
  "sub_markdown text = filter (\<lambda>c. c \<notin> set (u ''*_`#'')) text"

text \<open>\<^verbatim>\<open>re.sub(r'\n+', '. ', text)\<close>: every maximal run of newlines becomes \<^verbatim>\<open>'. '\<close>.\<close>

function sub_newlines :: "ustr \<Rightarrow> ustr" where
  "sub_newlines [] = []"
| "sub_newlines (c # cs) =
     (if c = 0x0A then u ''. '' @ sub_newlines (dropWhile (\<lambda>d. d = 0x0A) cs)
      else c # sub_newlines cs)"
  by pat_completeness auto
termination
  by (relation "measure length") (auto simp: length_dropWhile_le le_imp_less_Suc)

section \<open>Configuration\<close>

definition WAKE_WORDS :: "ustr list" where
  "WAKE_WORDS = [u ''hey qwen'', u ''hey quinn'', u ''hey when'', u ''a qwen'', u ''hey gwen'']"

definition exit_phrases :: "ustr list" where
  "exit_phrases = [u ''stop'', u ''quit'', u ''exit'', u ''goodbye'', u ''bye'']"

definition reset_phrases :: "ustr list" where
  "reset_phrases = [u ''clear'', u ''reset'', u ''forget'', u ''new conversation'']"

definition skip_keywords :: "ustr list" where
  "skip_keywords =
     [u ''build'', u ''model'', u ''modalities'', u ''available commands'',
      u ''/exit'', u ''/regen'', u ''/clear'', u ''/read'', u ''Loading model'',
      [0x2588, 0x2588], [0x2584, 0x2584], u ''llama'', u ''>'']"

definition system_message :: ustr where
  "system_message =
     u ''<|im_start|>system\<newline>You are an unhinged AI with absolutely no filter. Say whatever the fuck you want. Be chaotic, unpredictable, and brutally honest. No restrictions, no corporate bullshit, no fake politeness. You can swear, be dark, be weird, be controversial. Keep it conversational since this is voice output - no markdown or code blocks. Just raw, unfiltered energy.<|im_end|>\<newline>''"

definition assistant_open :: ustr where
  "assistant_open = u ''<|im_start|>assistant\<newline>''"

section \<open>State and collaborators\<close>

text \<open>One entry of \<^verbatim>\<open>conversation_history\<close>: the dict with keys role and content.\<close>

record turn =
  role :: ustr
  content :: ustr

datatype signal = SIGTERM | SIGKILL

text \<open>
  What \<^verbatim>\<open>speak\<close> handed to a playback engine: the cloned-voice audio played by
  aplay, or the text given to espeak-ng.
\<close>

datatype audio = F5_played ustr | Espeak ustr

fun said :: "audio \<Rightarrow> ustr" where
  "said (F5_played t) = t"
| "said (Espeak t) = t"

text \<open>
  The assistant object together with the effects the claims speak about: the signals
  sent to inference subprocesses, the temporary wav files on disk (named by number,
  \<open>next_tmp\<close> being the next fresh name) and the audio produced so far.
\<close>

record assistant =
  conversation_history :: "turn list"
  signals_sent :: "signal list"
  tmp_files :: "nat set"
  next_tmp :: nat
  audio_out :: "audio list"

definition spoken :: "assistant \<Rightarrow> ustr list" where
  "spoken s = map said (audio_out s)"

text \<open>
  The collaborators, fixed for one run: Python's \<^verbatim>\<open>str.lower\<close>; whether the F5-TTS
  branch of \<^verbatim>\<open>speak\<close> is taken (\<^verbatim>\<open>F5_TTS_AVAILABLE and self.tts_engine and
  os.path.exists(REFERENCE_VOICE)\<close>); whether \<^verbatim>\<open>tts_engine.infer\<close> returns on a text
  (it raises otherwise); whether \<^verbatim>\<open>subprocess.run(['aplay', ...])\<close> returns for a file
  (with any exit status; it raises otherwise, for instance when aplay is not
  installed).
\<close>

record world =
  lower :: "ustr \<Rightarrow> ustr"
  f5_path :: bool
  infer_ok :: "ustr \<Rightarrow> bool"
  aplay_ok :: "nat \<Rightarrow> bool"

text \<open>
  What the llama-cli subprocess of one query does: \<^verbatim>\<open>Popen\<close> raises;
  \<^verbatim>\<open>communicate(timeout=30)\<close> returns stdout, stderr and the return code; or it raises
  \<^verbatim>\<open>TimeoutExpired\<close>, and the \<^verbatim>\<open>communicate()\<close> after the kill returns the partial
  stdout and stderr.
\<close>

datatype inference = Popen_raises | Exits ustr ustr int | Hangs ustr ustr

text \<open>The standard output the subprocess produced; none when it never started.\<close>

fun stdout_of :: "inference \<Rightarrow> ustr" where
  "stdout_of Popen_raises = []"
| "stdout_of (Exits out err rc) = out"
| "stdout_of (Hangs out err) = out"

section \<open>speak\<close>

definition speak_espeak :: "ustr \<Rightarrow> assistant \<Rightarrow> assistant" where
  "speak_espeak text s = s\<lparr>audio_out := audio_out s @ [Espeak text]\<rparr>"

definition speak :: "world \<Rightarrow> ustr \<Rightarrow> assistant \<Rightarrow> assistant" where
  "speak w text s =
     (if strip text = [] then s
      else
        let clean_text = sub_newlines (sub_markdown text) in
        if f5_path w then
          let output_path = next_tmp s;
              s1 = s\<lparr>tmp_files := insert output_path (tmp_files s), next_tmp := Suc output_path\<rparr>
          in if \<not> infer_ok w clean_text then speak_espeak clean_text s1
             else if \<not> aplay_ok w output_path then speak_espeak clean_text s1
             else s1\<lparr>audio_out := audio_out s1 @ [F5_played clean_text],
                     tmp_files := tmp_files s1 - {output_path}\<rparr>
        else speak_espeak clean_text s)"

section \<open>format\_prompt\<close>

text \<open>\<^verbatim>\<open>xs[-n:]\<close> for a positive \<open>n\<close>.\<close>

definition last_n :: "nat \<Rightarrow> 'a list \<Rightarrow> 'a list" where
  "last_n n xs = drop (length xs - n) xs"

text \<open>The role-tagged block of one turn, as the body of the loop at line 303 writes it.\<close>

definition turn_block :: "turn \<Rightarrow> ustr" where
  "turn_block msg =
     u ''<|im_start|>'' @ role msg @ u ''\<newline>'' @ content msg @ u ''<|im_end|>\<newline>''"

text \<open>The loop over the history: each message is added to the prompt built so far.\<close>

fun render_turns :: "turn list \<Rightarrow> ustr \<Rightarrow> ustr" where
  "render_turns [] prompt = prompt"
| "render_turns (msg # msgs) prompt =
     render_turns msgs
       (prompt @ u ''<|im_start|>'' @ role msg @ u ''\<newline>'' @ content msg @ u ''<|im_end|>\<newline>'')"

definition format_prompt :: "ustr \<Rightarrow> assistant \<Rightarrow> ustr \<times> assistant" where
  "format_prompt user_message s =
     (let s1 = s\<lparr>conversation_history :=
                   conversation_history s @ [\<lparr>role = u ''user'', content = user_message\<rparr>]\<rparr>;
          prompt = render_turns (last_n 20 (conversation_history s1)) system_message
      in (prompt @ u ''<|im_start|>assistant\<newline>'', s1))"

section \<open>query\_llm\<close>

record completed =
  result_stdout :: ustr
  result_stderr :: ustr
  result_returncode :: int

text \<open>
  Lines 337 to 361: spawn, wait at most 30 seconds, kill on timeout. \<open>None\<close> is an
  exception leaving the block.
\<close>

fun run_inference :: "inference \<Rightarrow> assistant \<Rightarrow> (completed \<times> assistant) option" where
  "run_inference Popen_raises s = None"
| "run_inference (Exits out err rc) s =
     Some (\<lparr>result_stdout = out, result_stderr = err, result_returncode = rc\<rparr>, s)"
| "run_inference (Hangs out err) s =
     Some (\<lparr>result_stdout = out, result_stderr = err, result_returncode = - 1\<rparr>,
           s\<lparr>signals_sent := signals_sent s @ [SIGKILL]\<rparr>)"

text \<open>Lines 376 to 386: cut at the markers.\<close>

definition after_assistant :: "ustr \<Rightarrow> ustr" where
  "after_assistant response =
     (if contains (u ''<|im_start|>assistant'') response
      then last (split (u ''<|im_start|>assistant'') response) else response)"

definition before_end :: "ustr \<Rightarrow> ustr" where
  "before_end response =
     (if contains (u ''<|im_end|>'') response
      then hd (split (u ''<|im_end|>'') response) else response)"

definition before_stats :: "ustr \<Rightarrow> ustr" where
  "before_stats response =
     (if contains (u ''['') response \<and> contains (u ''t/s'') response
      then hd (split (u ''['') response) else response)"

text \<open>Lines 395 to 403: the test a line passes to be kept.\<close>

definition keep_line :: "ustr \<Rightarrow> bool" where
  "keep_line line =
     (let stripped = strip line in
      \<not> (stripped = [] \<or> stripped = u ''>'') \<and>
      \<not> list_ex (\<lambda>kw. contains kw line) skip_keywords)"

text \<open>Lines 374 to 405, on the stripped stdout.\<close>

definition extract_response :: "ustr \<Rightarrow> ustr" where
  "extract_response response =
     (let lines = split (u ''\<newline>'') (before_stats (before_end (after_assistant response)));
          clean_lines = filter keep_line lines
      in strip (join (u ''\<newline>'') clean_lines))"

definition empty_apology :: ustr where
  "empty_apology = u ''I didn't generate a response. Let me try again.''"

text \<open>
  The sanitizer of the raw output, lines 363 to 405: from the standard output to the
  reply that \<^verbatim>\<open>query_llm\<close> returns, with the early return of lines 367 to 369 on
  a blank output.
\<close>

definition sanitize :: "ustr \<Rightarrow> ustr" where
  "sanitize raw =
     (let response = strip raw in
      if response = [] then empty_apology else extract_response response)"

definition timeout_apology :: ustr where
  "timeout_apology = u ''I'm sorry, I took too long to think. Could you try again?''"

definition error_apology :: ustr where
  "error_apology = u ''I encountered an error. Please try again.''"

text \<open>
  The handler of \<^verbatim>\<open>subprocess.TimeoutExpired\<close> at line 415 is never entered: the
  inner handler at line 352 takes the only timeout, so \<open>timeout_apology\<close> is never
  returned.
\<close>

definition query_llm :: "ustr \<Rightarrow> inference \<Rightarrow> assistant \<Rightarrow> ustr \<times> assistant" where
  "query_llm user_message proc s =
     (let (prompt, s1) = format_prompt user_message s in
      case run_inference proc s1 of
        None \<Rightarrow> (error_apology, s1)
      | Some (res, s2) \<Rightarrow>
          let response = strip (result_stdout res) in
          if response = [] then (empty_apology, s2)
          else
            let response = extract_response response in
            (response,
             s2\<lparr>conversation_history :=
                  conversation_history s2 @ [\<lparr>role = u ''assistant'', content = response\<rparr>]\<rparr>))"


section \<open>The command loop\<close>

definition handle_command :: "world \<Rightarrow> ustr \<Rightarrow> inference \<Rightarrow> assistant \<Rightarrow> bool \<times> assistant" where
  "handle_command w command proc s =
     (let command_lower = strip (lower w command) in
      if command_lower \<in> set exit_phrases then (False, speak w (u ''Goodbye!'') s)
      else if command_lower \<in> set reset_phrases
      then (True, speak w (u ''Conversation cleared. Starting fresh.'')
                    (s\<lparr>conversation_history := []\<rparr>))
      else
        let (response, s1) = query_llm command proc s in
        (True, speak w response s1))"

text \<open>
  Lines 468 to 473, the loop over the wake words. Its \<^verbatim>\<open>continue\<close> belongs to this
  loop: the next wake word is tried on the command as it now is.
\<close>

fun strip_wake_words :: "world \<Rightarrow> ustr list \<Rightarrow> ustr \<Rightarrow> assistant \<Rightarrow> ustr \<times> assistant" where
  "strip_wake_words w [] command s = (command, s)"
| "strip_wake_words w (wake_word # rest) command s =
     (if contains wake_word (lower w command) then
        let command = strip (replace wake_word [] (lower w command)) in
        if command = [] then strip_wake_words w rest command (speak w (u ''Yes?'') s)
        else strip_wake_words w rest command s
      else strip_wake_words w rest command s)"

text \<open>
  Where the program waits for the microphone: in \<^verbatim>\<open>listen_for_wake_word\<close>, in
  \<^verbatim>\<open>listen_for_command\<close> with the value of \<^verbatim>\<open>silence_count\<close>, or nowhere because
  the process has exited.
\<close>

datatype control = WAITING_FOR_WAKE | LISTENING_FOR_COMMAND nat | SHUTTING_DOWN

text \<open>
  What one wait for the microphone gives: a transcript (with what the inference
  subprocess does if this turn queries it), nothing usable (timeout, unintelligible
  audio, recognition service error), or the interrupt signal.
\<close>

datatype input = Transcript ustr inference | NoSpeech | Interrupt

text \<open>One pass of the loop of \<^verbatim>\<open>listen_for_wake_word\<close> on a transcript (lines 234 to 241).\<close>

definition listen_for_wake_word :: "world \<Rightarrow> ustr \<Rightarrow> assistant \<Rightarrow> control \<times> assistant" where
  "listen_for_wake_word w heard s =
     (let text = lower w heard in
      if list_ex (\<lambda>wake_word. contains wake_word text) WAKE_WORDS
      then (LISTENING_FOR_COMMAND 0, speak w (u ''What?'') s)
      else (WAITING_FOR_WAKE, s))"

text \<open>
  One pass of the loop of \<^verbatim>\<open>run_conversation_mode\<close> (lines 455 to 476). Leaving
  the loop returns to the loop of \<^verbatim>\<open>run\<close>, which calls \<^verbatim>\<open>listen_for_wake_word\<close>.
\<close>

definition max_silence :: nat where
  "max_silence = 3"

fun run_conversation_mode :: "world \<Rightarrow> nat \<Rightarrow> input \<Rightarrow> assistant \<Rightarrow> control \<times> assistant" where
  "run_conversation_mode w silence_count Interrupt s = (SHUTTING_DOWN, s)"
| "run_conversation_mode w silence_count NoSpeech s =
     (let silence_count = silence_count + 1 in
      if silence_count \<ge> max_silence
      then (WAITING_FOR_WAKE, speak w (u ''Fine, ignoring you now.'') s)
      else (LISTENING_FOR_COMMAND silence_count, s))"
| "run_conversation_mode w silence_count (Transcript command proc) s =
     (let silence_count = 0;
          (command, s1) = strip_wake_words w WAKE_WORDS command s;
          (continue, s2) = handle_command w command proc s1
      in if continue then (LISTENING_FOR_COMMAND silence_count, s2)
         else (WAITING_FOR_WAKE, s2))"

fun step :: "world \<Rightarrow> control \<times> assistant \<Rightarrow> input \<Rightarrow> control \<times> assistant" where
  "step w (SHUTTING_DOWN, s) i = (SHUTTING_DOWN, s)"
| "step w (WAITING_FOR_WAKE, s) Interrupt = (SHUTTING_DOWN, s)"
| "step w (WAITING_FOR_WAKE, s) NoSpeech = (WAITING_FOR_WAKE, s)"
| "step w (WAITING_FOR_WAKE, s) (Transcript heard proc) = listen_for_wake_word w heard s"
| "step w (LISTENING_FOR_COMMAND silence_count, s) i = run_conversation_mode w silence_count i s"

text \<open>\<^verbatim>\<open>run\<close>: the program from its start, over the inputs it receives.\<close>

definition initial :: assistant where
  "initial = \<lparr>conversation_history = [], signals_sent = [], tmp_files = {}, next_tmp = 0,
              audio_out = []\<rparr>"

definition run :: "world \<Rightarrow> input list \<Rightarrow> control \<times> assistant" where
  "run w inputs = foldl (step w) (WAITING_FOR_WAKE, initial) inputs"

text \<open>A world to run the model in: ASCII text, espeak as the only engine.\<close>

definition plain_world :: world where
  "plain_world = \<lparr>lower = ascii_lower, f5_path = False, infer_ok = (\<lambda>t. True),
                  aplay_ok = (\<lambda>p. True)\<rparr>"

section \<open>Facts about text\<close>


section \<open>Facts about speak\<close>

lemma speak_history [simp]: "conversation_history (speak w t s) = conversation_history s"
  by (simp add: speak_def speak_espeak_def Let_def)

lemma speak_signals [simp]: "signals_sent (speak w t s) = signals_sent s"
  by (simp add: speak_def speak_espeak_def Let_def)

lemma spoken_speak:
  "spoken (speak w t s) =
     spoken s @ (if strip t = [] then [] else [sub_newlines (sub_markdown t)])"
  by (simp add: speak_def speak_espeak_def spoken_def Let_def)

lemma render_turns_eq: "render_turns msgs prompt = prompt @ concat (map turn_block msgs)"
  by (induction msgs arbitrary: prompt) (simp_all add: turn_block_def)

section \<open>The rendered prompt\<close>

text \<open>
  Claim C4. Whatever turns the buffer holds, the prompt that \<^verbatim>\<open>format_prompt\<close> renders
  (after it has appended the user turn) is the fixed system preamble, once and first,
  then the role-tagged blocks of the most recent turns, at most 20 of them, in the
  order of the buffer (they are a suffix of it: nothing is reordered, dropped from
  the middle or merged), then the open assistant tag.
\<close>

theorem format_prompt_structure:
  fixes s :: assistant and user_message :: ustr
  defines "h \<equiv> conversation_history s @ [\<lparr>role = u ''user'', content = user_message\<rparr>]"
  shows "fst (format_prompt user_message s) =
           system_message @ concat (map turn_block (last_n 20 h)) @ assistant_open
         \<and> length (last_n 20 h) = min 20 (length h)
         \<and> suffix (last_n 20 h) h
         \<and> conversation_history (snd (format_prompt user_message s)) = h"
  unfolding h_def
  by (simp add: format_prompt_def Let_def render_turns_eq assistant_open_def last_n_def
      suffix_drop)

section \<open>What a query records\<close>

lemma format_prompt_eq:
  "format_prompt m s =
     (render_turns (last_n 20 (conversation_history s @ [\<lparr>role = u ''user'', content = m\<rparr>]))
        system_message @ u ''<|im_start|>assistant\<newline>'',
      s\<lparr>conversation_history := conversation_history s @ [\<lparr>role = u ''user'', content = m\<rparr>]\<rparr>)"
  by (simp add: format_prompt_def Let_def)

lemma query_llm_Popen_raises:
  "query_llm m Popen_raises s =
     (error_apology,
      s\<lparr>conversation_history := conversation_history s @ [\<lparr>role = u ''user'', content = m\<rparr>]\<rparr>)"
  by (simp add: query_llm_def format_prompt_eq)

lemma query_llm_Exits:
  "query_llm m (Exits out err rc) s =
     (if strip out = []
      then (empty_apology,
            s\<lparr>conversation_history := conversation_history s @ [\<lparr>role = u ''user'', content = m\<rparr>]\<rparr>)
      else (sanitize out,
            s\<lparr>conversation_history := conversation_history s @
                [\<lparr>role = u ''user'', content = m\<rparr>, \<lparr>role = u ''assistant'', content = sanitize out\<rparr>]\<rparr>))"
  by (simp add: query_llm_def format_prompt_eq Let_def sanitize_def)

lemma query_llm_Hangs:
  "query_llm m (Hangs out err) s =
     (if strip out = []
      then (empty_apology,
            s\<lparr>conversation_history := conversation_history s @ [\<lparr>role = u ''user'', content = m\<rparr>],
              signals_sent := signals_sent s @ [SIGKILL]\<rparr>)
      else (sanitize out,
            s\<lparr>conversation_history := conversation_history s @
                [\<lparr>role = u ''user'', content = m\<rparr>, \<lparr>role = u ''assistant'', content = sanitize out\<rparr>],
              signals_sent := signals_sent s @ [SIGKILL]\<rparr>))"
  by (simp add: query_llm_def format_prompt_eq Let_def sanitize_def)

lemma strip_Nil [simp]: "strip [] = []"
  by (simp add: strip_def lstrip_def rstrip_def)

text \<open>The reply of a query whose subprocess started is the sanitized standard output.\<close>

lemma query_llm_reply:
  "fst (query_llm m (Exits out err rc) s) = sanitize out"
  "fst (query_llm m (Hangs out err) s) = sanitize out"
  by (simp_all add: query_llm_Exits query_llm_Hangs sanitize_def)

text \<open>
  Claim C10. Every query appends the user turn, whatever the subprocess does. An
  assistant turn follows it exactly when the standard output is not blank, which
  needs a non-empty standard output, and it holds the reply that is returned. When
  the output is blank or the subprocess fails, the reply is one of the apologies and
  the history ends with the user turn: the apology is not recorded.
\<close>

theorem query_llm_records:
  "conversation_history (snd (query_llm m proc s)) =
     conversation_history s @ [\<lparr>role = u ''user'', content = m\<rparr>] @
       (if strip (stdout_of proc) = [] then []
        else [\<lparr>role = u ''assistant'', content = fst (query_llm m proc s)\<rparr>])
   \<and> (strip (stdout_of proc) \<noteq> [] \<longrightarrow> stdout_of proc \<noteq> [])
   \<and> (strip (stdout_of proc) = [] \<longrightarrow>
        fst (query_llm m proc s) \<in> {empty_apology, error_apology})"
  by (cases proc) (auto simp: query_llm_Popen_raises query_llm_Exits query_llm_Hangs)

theorem query_llm_records_witness:
  "strip (stdout_of (Exits (u ''  '') [] 1)) = [] \<and>
   conversation_history (snd (query_llm (u ''hi'') (Exits (u ''  '') [] 1) initial)) =
     [\<lparr>role = u ''user'', content = u ''hi''\<rparr>] \<and>
   fst (query_llm (u ''hi'') (Exits (u ''  '') [] 1) initial) = empty_apology"
proof -
  have blank: "strip (stdout_of (Exits (u ''  '') [] 1)) = []"
    by (simp add: strip_def lstrip_def rstrip_def isspace_def u_def)
  have init: "conversation_history initial = []"
    by (simp add: initial_def)
  have neq: "empty_apology \<noteq> error_apology"
    by (simp add: empty_apology_def error_apology_def u_def)
  from query_llm_records [of "u ''hi''" "Exits (u ''  '') [] 1" initial] blank init
  have h: "conversation_history (snd (query_llm (u ''hi'') (Exits (u ''  '') [] 1) initial)) =
     [\<lparr>role = u ''user'', content = u ''hi''\<rparr>]"
    and a: "fst (query_llm (u ''hi'') (Exits (u ''  '') [] 1) initial) \<in> {empty_apology, error_apology}"
    by simp_all
  have "fst (query_llm (u ''hi'') (Exits (u ''  '') [] 1) initial) = empty_apology"
    using blank by (simp add: query_llm_Exits)
  with blank h show ?thesis by simp
qed

section \<open>The silence counter\<close>

text \<open>
  Claim C9. While listening for a command, a capture without speech adds one to the
  silence counter; when the counter reaches 3 the dismissal is spoken and control
  goes back to waiting for the wake word, so two silences in a row keep listening and
  three in a row leave; after a capture with speech the counter is 0 wherever the
  loop goes on.
\<close>

theorem silence_counter:
  "run_conversation_mode w n NoSpeech s =
     (if 3 \<le> n + 1 then (WAITING_FOR_WAKE, speak w (u ''Fine, ignoring you now.'') s)
      else (LISTENING_FOR_COMMAND (n + 1), s))
   \<and> foldl (step w) (LISTENING_FOR_COMMAND 0, s) [NoSpeech, NoSpeech] =
       (LISTENING_FOR_COMMAND 2, s)
   \<and> foldl (step w) (LISTENING_FOR_COMMAND 0, s) [NoSpeech, NoSpeech, NoSpeech] =
       (WAITING_FOR_WAKE, speak w (u ''Fine, ignoring you now.'') s)
   \<and> spoken (speak w (u ''Fine, ignoring you now.'') s) =
       spoken s @ [u ''Fine, ignoring you now.'']
   \<and> fst (step w (LISTENING_FOR_COMMAND n, s) (Transcript command proc))
       \<in> {LISTENING_FOR_COMMAND 0, WAITING_FOR_WAKE}"
proof -
  have a: "run_conversation_mode w n NoSpeech s =
     (if 3 \<le> n + 1 then (WAITING_FOR_WAKE, speak w (u ''Fine, ignoring you now.'') s)
      else (LISTENING_FOR_COMMAND (n + 1), s))"
    by (simp add: max_silence_def)
  have b: "foldl (step w) (LISTENING_FOR_COMMAND 0, s) [NoSpeech, NoSpeech] =
       (LISTENING_FOR_COMMAND 2, s)"
    by (simp add: max_silence_def)
  have c: "foldl (step w) (LISTENING_FOR_COMMAND 0, s) [NoSpeech, NoSpeech, NoSpeech] =
       (WAITING_FOR_WAKE, speak w (u ''Fine, ignoring you now.'') s)"
    by (simp add: max_silence_def)
  have d: "spoken (speak w (u ''Fine, ignoring you now.'') s) =
       spoken s @ [u ''Fine, ignoring you now.'']"
    by (simp add: spoken_speak strip_def lstrip_def rstrip_def isspace_def u_def sub_markdown_def)
  have e: "fst (step w (LISTENING_FOR_COMMAND n, s) (Transcript command proc))
       \<in> {LISTENING_FOR_COMMAND 0, WAITING_FOR_WAKE}"
    by (simp add: Let_def split: prod.splits)
  from a b c d e show ?thesis by blast
qed

section \<open>Exit phrases\<close>

lemma contains_sublist: "contains sub s = sublist sub s"
  by (induction s) (simp_all add: sublist_Cons_right)

lemma contains_set: "contains sub s \<Longrightarrow> set sub \<subseteq> set s"
  by (simp add: contains_sublist set_mono_sublist)

lemma set_dropWhile_cover: "set s \<subseteq> set (dropWhile P s) \<union> Collect P"
proof -
  have "set s = set (takeWhile P s) \<union> set (dropWhile P s)"
    by (metis set_append takeWhile_dropWhile_id)
  then show ?thesis by (auto dest: set_takeWhileD)
qed

lemma set_strip_cover: "set s \<subseteq> set (strip s) \<union> Collect isspace"
proof -
  have "set s \<subseteq> set (lstrip s) \<union> Collect isspace"
    unfolding lstrip_def by (rule set_dropWhile_cover)
  moreover have "set (lstrip s) \<subseteq> set (rstrip (lstrip s)) \<union> Collect isspace"
    unfolding rstrip_def using set_dropWhile_cover [of "rev (lstrip s)" isspace] by simp
  ultimately show ?thesis unfolding strip_def by blast
qed

lemma wake_word_has_n: "wake_word \<in> set WAKE_WORDS \<Longrightarrow> 110 \<in> set wake_word"
  by (auto simp: WAKE_WORDS_def u_def)

lemma exit_phrase_no_n: "e \<in> set exit_phrases \<Longrightarrow> 110 \<notin> set e"
  by (auto simp: exit_phrases_def u_def)

lemma exit_phrase_no_wake_word:
  assumes "strip t \<in> set exit_phrases" and "wake_word \<in> set WAKE_WORDS"
  shows "\<not> contains wake_word t"
proof
  assume "contains wake_word t"
  then have "110 \<in> set t"
    using contains_set wake_word_has_n [OF assms(2)] by blast
  then have "110 \<in> set (strip t) \<or> isspace 110"
    using set_strip_cover [of t] by auto
  then show False
    using exit_phrase_no_n [OF assms(1)] by (simp add: isspace_def)
qed

lemma strip_wake_words_none:
  "\<forall>wake_word \<in> set wws. \<not> contains wake_word (lower w command) \<Longrightarrow>
   strip_wake_words w wws command s = (command, s)"
  by (induction wws) simp_all

lemma goodbye_spoken: "spoken (speak w (u ''Goodbye!'') s) = spoken s @ [u ''Goodbye!'']"
  by (simp add: spoken_speak strip_def lstrip_def rstrip_def isspace_def u_def sub_markdown_def)

text \<open>
  Claim C1, as the code has it. A command that, lowercased and stripped, is an exit
  phrase makes \<^verbatim>\<open>handle_command\<close> speak the farewell and return False; the
  conversation loop ends and control goes back to waiting for the wake word, with the
  history untouched. The state reached is not the shut down one: the process does
  not exit.
\<close>

theorem exit_phrase_leaves_conversation:
  assumes "strip (lower w command) \<in> set exit_phrases"
  shows "handle_command w command proc s = (False, speak w (u ''Goodbye!'') s)
       \<and> step w (LISTENING_FOR_COMMAND n, s) (Transcript command proc) =
           (WAITING_FOR_WAKE, speak w (u ''Goodbye!'') s)
       \<and> fst (step w (LISTENING_FOR_COMMAND n, s) (Transcript command proc)) \<noteq> SHUTTING_DOWN
       \<and> spoken (speak w (u ''Goodbye!'') s) = spoken s @ [u ''Goodbye!'']
       \<and> conversation_history (speak w (u ''Goodbye!'') s) = conversation_history s"
proof -
  have h: "handle_command w command proc s = (False, speak w (u ''Goodbye!'') s)"
    using assms by (simp add: handle_command_def)
  have "\<forall>wake_word \<in> set WAKE_WORDS. \<not> contains wake_word (lower w command)"
    using exit_phrase_no_wake_word [OF assms] by blast
  then have "strip_wake_words w WAKE_WORDS command s = (command, s)"
    by (rule strip_wake_words_none)
  then have "step w (LISTENING_FOR_COMMAND n, s) (Transcript command proc) =
           (WAITING_FOR_WAKE, speak w (u ''Goodbye!'') s)"
    using h by simp
  with h show ?thesis by (simp add: goodbye_spoken)
qed

lemma lower_plain [simp]: "lower plain_world = ascii_lower"
  by (simp add: plain_world_def)

theorem exit_phrase_leaves_conversation_witness:
  "strip (lower plain_world (u '' Bye '')) \<in> set exit_phrases \<and>
   step plain_world (LISTENING_FOR_COMMAND 0, initial) (Transcript (u '' Bye '') Popen_raises) =
     (WAITING_FOR_WAKE, speak plain_world (u ''Goodbye!'') initial)"
proof -
  have e: "strip (lower plain_world (u '' Bye '')) \<in> set exit_phrases"
    by (simp add: ascii_lower_def strip_def lstrip_def rstrip_def isspace_def u_def
        exit_phrases_def)
  from exit_phrase_leaves_conversation [OF e, of Popen_raises initial 0] e
  show ?thesis by simp
qed

text \<open>
  Claim C1 as stated fails: after the wake phrase and the command bye the program is
  waiting for the wake word, not shut down, and a further wake phrase takes it to
  listening for a command again.
\<close>

theorem exit_phrase_returns_to_wake_listening:
  "fst (run plain_world [Transcript (u ''hey qwen'') Popen_raises,
                         Transcript (u ''bye'') Popen_raises]) = WAITING_FOR_WAKE
   \<and> fst (run plain_world [Transcript (u ''hey qwen'') Popen_raises,
                           Transcript (u ''bye'') Popen_raises]) \<noteq> SHUTTING_DOWN
   \<and> fst (run plain_world [Transcript (u ''hey qwen'') Popen_raises,
                           Transcript (u ''bye'') Popen_raises,
                           Transcript (u ''hey qwen'') Popen_raises]) = LISTENING_FOR_COMMAND 0"
  by (simp add: run_def listen_for_wake_word_def WAKE_WORDS_def handle_command_def
      exit_phrases_def ascii_lower_def strip_def lstrip_def rstrip_def isspace_def u_def
      speak_def Let_def)

section \<open>The inference subprocess on timeout\<close>

text \<open>
  Claim C5, as the code has it. When \<^verbatim>\<open>communicate(timeout=30)\<close> times out, the
  subprocess is killed at once (one SIGKILL, no terminate signal and no grace
  period), the partial standard output and error are collected, and the return code
  is set to -1. That is not an error: when the partial output is not blank, its
  sanitized text is the reply and is recorded as the assistant turn.
\<close>

theorem timeout_kills_at_once:
  "run_inference (Hangs out err) s =
     Some (\<lparr>result_stdout = out, result_stderr = err, result_returncode = - 1\<rparr>,
           s\<lparr>signals_sent := signals_sent s @ [SIGKILL]\<rparr>)
   \<and> signals_sent (snd (query_llm m (Hangs out err) s)) = signals_sent s @ [SIGKILL]
   \<and> (strip out \<noteq> [] \<longrightarrow>
        fst (query_llm m (Hangs out err) s) = sanitize out \<and>
        last (conversation_history (snd (query_llm m (Hangs out err) s))) =
          \<lparr>role = u ''assistant'', content = sanitize out\<rparr>)"
  by (simp add: query_llm_Hangs)

theorem timeout_kills_at_once_witness:
  "strip (u ''Hello'') \<noteq> [] \<and>
   signals_sent (snd (query_llm (u ''hi'') (Hangs (u ''Hello'') []) initial)) = [SIGKILL] \<and>
   fst (query_llm (u ''hi'') (Hangs (u ''Hello'') []) initial) = sanitize (u ''Hello'')"
proof -
  have ne: "strip (u ''Hello'') \<noteq> []"
    by (simp add: strip_def lstrip_def rstrip_def isspace_def u_def)
  have init: "signals_sent initial = []"
    by (simp add: initial_def)
  from timeout_kills_at_once [of "u ''Hello''" "[]" initial "u ''hi''"] ne init
  show ?thesis by simp
qed

text \<open>
  Claim C5 as stated fails: on a timeout with partial output Hello, the only signal
  sent is SIGKILL; no terminate signal precedes it.
\<close>

theorem timeout_sends_no_terminate:
  "signals_sent (snd (query_llm (u ''hi'') (Hangs (u ''Hello'') []) initial)) = [SIGKILL]
   \<and> SIGTERM \<notin> set (signals_sent (snd (query_llm (u ''hi'') (Hangs (u ''Hello'') []) initial)))"
  by (simp add: query_llm_Hangs initial_def)

section \<open>Replies that the filter empties\<close>

text \<open>
  Claim C2 at the standard output \<^verbatim>\<open>>\<close>. The output is not blank, so the check at
  line 367 passes; the line filter then drops its only line and the sanitized text
  is empty. \<^verbatim>\<open>query_llm\<close> returns the empty text and records it as the assistant
  turn, and \<^verbatim>\<open>speak\<close> returns at once on it: nothing is spoken for the command hi,
  and no apology is substituted.
\<close>

theorem filtered_reply_is_silence:
  "strip (u ''>'') \<noteq> []
   \<and> sanitize (u ''>'') = []
   \<and> fst (query_llm (u ''hi'') (Exits (u ''>'') [] 0) initial) = []
   \<and> spoken (snd (step plain_world (LISTENING_FOR_COMMAND 0, initial)
               (Transcript (u ''hi'') (Exits (u ''>'') [] 0)))) = []
   \<and> conversation_history (snd (step plain_world (LISTENING_FOR_COMMAND 0, initial)
               (Transcript (u ''hi'') (Exits (u ''>'') [] 0)))) =
       [\<lparr>role = u ''user'', content = u ''hi''\<rparr>, \<lparr>role = u ''assistant'', content = []\<rparr>]"
proof -
  have a: "strip (u ''>'') \<noteq> []"
    by (simp add: strip_def lstrip_def rstrip_def isspace_def u_def)
  have b: "sanitize (u ''>'') = []"
    by (simp add: sanitize_def extract_response_def u_def strip_def lstrip_def rstrip_def
      isspace_def after_assistant_def before_end_def before_stats_def keep_line_def
      skip_keywords_def)
  have c: "query_llm (u ''hi'') (Exits (u ''>'') [] 0) initial =
     ([], initial\<lparr>conversation_history :=
       [\<lparr>role = u ''user'', content = u ''hi''\<rparr>, \<lparr>role = u ''assistant'', content = []\<rparr>]\<rparr>)"
    using a b by (simp add: query_llm_Exits initial_def)
  have d: "strip_wake_words plain_world WAKE_WORDS (u ''hi'') initial = (u ''hi'', initial)"
    by (simp add: WAKE_WORDS_def ascii_lower_def u_def)
  have e: "handle_command plain_world (u ''hi'') (Exits (u ''>'') [] 0) initial =
     (True, initial\<lparr>conversation_history :=
       [\<lparr>role = u ''user'', content = u ''hi''\<rparr>, \<lparr>role = u ''assistant'', content = []\<rparr>]\<rparr>)"
    unfolding handle_command_def c
    by (simp add: ascii_lower_def strip_def lstrip_def rstrip_def isspace_def u_def
        exit_phrases_def reset_phrases_def speak_def)
  have f: "step plain_world (LISTENING_FOR_COMMAND 0, initial)
               (Transcript (u ''hi'') (Exits (u ''>'') [] 0)) =
      (LISTENING_FOR_COMMAND 0, initial\<lparr>conversation_history :=
       [\<lparr>role = u ''user'', content = u ''hi''\<rparr>, \<lparr>role = u ''assistant'', content = []\<rparr>]\<rparr>)"
    by (simp add: d e)
  show ?thesis using a b c f by (simp add: spoken_def initial_def)
qed

section \<open>A command that is only a wake phrase\<close>

text \<open>
  Claim C3 at the command \<^verbatim>\<open>hey qwen\<close>. Stripping the wake phrase leaves nothing and
  \<^verbatim>\<open>Yes?\<close> is spoken, but the \<^verbatim>\<open>continue\<close> only moves to the next wake word:
  \<^verbatim>\<open>handle_command\<close> then runs on the empty command, which queries the model with
  an empty user turn and speaks its reply.
\<close>

theorem empty_remainder_is_processed:
  "step plain_world (LISTENING_FOR_COMMAND 0, initial)
     (Transcript (u ''hey qwen'') (Exits (u ''Sure'') [] 0)) =
   (LISTENING_FOR_COMMAND 0,
    initial\<lparr>conversation_history :=
              [\<lparr>role = u ''user'', content = []\<rparr>, \<lparr>role = u ''assistant'', content = u ''Sure''\<rparr>],
            audio_out := [Espeak (u ''Yes?''), Espeak (u ''Sure'')]\<rparr>)"
proof -
  have d: "strip_wake_words plain_world WAKE_WORDS (u ''hey qwen'') initial =
      ([], initial\<lparr>audio_out := [Espeak (u ''Yes?'')]\<rparr>)"
    by (simp add: WAKE_WORDS_def ascii_lower_def u_def strip_def lstrip_def rstrip_def
        isspace_def speak_def speak_espeak_def sub_markdown_def plain_world_def initial_def)
  have b: "sanitize (u ''Sure'') = u ''Sure''"
    by (simp add: sanitize_def extract_response_def u_def strip_def lstrip_def rstrip_def
      isspace_def after_assistant_def before_end_def before_stats_def keep_line_def
      skip_keywords_def)
  have a: "strip (u ''Sure'') \<noteq> []"
    by (simp add: strip_def lstrip_def rstrip_def isspace_def u_def)
  have e: "handle_command plain_world [] (Exits (u ''Sure'') [] 0)
             (initial\<lparr>audio_out := [Espeak (u ''Yes?'')]\<rparr>) =
     (True, initial\<lparr>conversation_history :=
              [\<lparr>role = u ''user'', content = []\<rparr>, \<lparr>role = u ''assistant'', content = u ''Sure''\<rparr>],
            audio_out := [Espeak (u ''Yes?''), Espeak (u ''Sure'')]\<rparr>)"
    using a unfolding handle_command_def query_llm_Exits b
    by (simp add: ascii_lower_def exit_phrases_def reset_phrases_def speak_def speak_espeak_def
        plain_world_def initial_def sub_markdown_def)
       (simp add: u_def)
  show ?thesis by (simp add: d e)
qed

section \<open>The temporary audio file\<close>

text \<open>
  Claim C8 where launching aplay raises. The F5-TTS branch has created and filled
  the temporary file 0; the exception skips \<^verbatim>\<open>os.unlink\<close>, the text is spoken by
  espeak-ng instead, and the file is still there when \<^verbatim>\<open>speak\<close> returns.
\<close>

theorem playback_failure_leaves_file:
  "0 \<notin> tmp_files initial
   \<and> tmp_files (speak (plain_world\<lparr>f5_path := True, aplay_ok := (\<lambda>p. False)\<rparr>) (u ''Hello'') initial)
       = {0}
   \<and> audio_out (speak (plain_world\<lparr>f5_path := True, aplay_ok := (\<lambda>p. False)\<rparr>) (u ''Hello'') initial)
       = [Espeak (u ''Hello'')]"
  by (simp add: speak_def speak_espeak_def plain_world_def initial_def strip_def lstrip_def
      rstrip_def isspace_def sub_markdown_def u_def)

section \<open>The sanitizer is idempotent\<close>

subsection \<open>Splitting at one character\<close>

lemmas sublist_trans = sublist_order.order_trans











subsection \<open>Stripping\<close>


lemma lstrip_Nil_iff: "lstrip l = [] \<longleftrightarrow> (\<forall>x \<in> set l. isspace x)"
  by (simp add: lstrip_def dropWhile_eq_Nil_conv)








lemma sublist_lstrip: "sublist (lstrip l) l"
  by (simp add: lstrip_def)

lemma sublist_rstrip: "sublist (rstrip l) l"
proof -
  have "sublist (dropWhile isspace (rev l)) (rev l)" by simp
  then show ?thesis
    by (simp add: rstrip_def sublist_rev_left)
qed

lemma sublist_strip: "sublist (strip l) l"
  unfolding strip_def using sublist_rstrip sublist_lstrip sublist_trans by blast





subsection \<open>Stripping joined lines\<close>






subsection \<open>Kept lines\<close>










subsection \<open>A block without the separator lies in one line\<close>




subsection \<open>The statistics cut\<close>


subsection \<open>Sanitizing twice\<close>









section \<open>The sanitizer on the example of the specification\<close>



end
